theory Spec2Isabelle
  imports Main "HOL-Library.Sublist"
begin

section \<open>Data model of \<open>kopf/reactor/registries.py\<close>\<close>

text \<open>
  Exceptions are values. \<open>get_callable_id\<close> raises Python's \<open>ValueError\<close> (the
  specification calls it \<open>InvalidCallableError\<close>); a \<open>when\<close> callback of the user may
  raise anything: \<open>StopIteration\<close> and \<open>RuntimeError\<close> are told apart, since Python treats
  a \<open>StopIteration\<close> inside a generator in its own way, and any other exception is
  \<open>UserError\<close> here.
\<close>

datatype error = ValueError string | StopIteration | RuntimeError string | UserError string

text \<open>
  The callables \<open>get_callable_id\<close> tells apart, one constructor for each branch of its
  \<open>if\<close>/\<open>elif\<close> chain, in the order of the tests: \<open>None\<close>; a \<open>functools.partial\<close>
  (with its \<open>func\<close>); an object with \<open>__wrapped__\<close>; a function named \<open><lambda>\<close> (with
  \<open>co_filename\<close> and \<open>co_firstlineno\<close>); another function or method (with its
  \<open>__qualname__\<close>); anything else (with its \<open>repr\<close>). The parameters \<open>prefix\<close> and
  \<open>suffix\<close> of \<open>generate_id\<close> are \<open>pfx\<close> and \<open>sfx\<close> below.
\<close>

datatype callable =
    NoneC
  | Partial callable
  | Wrapped callable
  | Lambda string nat
  | Function string
  | Other string

text \<open>
  A callback as the registries hold it: the object's identity (\<open>id(fn)\<close> of Python) and
  what kind of callable it is.
\<close>

record fnref =
  py_id :: nat
  callable :: callable

type_synonym Activity = string
type_synonym Reason = string
type_synonym FieldPath = "string list"
type_synonym Resource = "string \<times> string \<times> string"

text \<open>
  The handlers (\<open>kopf/reactor/handlers.py\<close> is not part of the sources at hand; the fields
  are those the constructors are called with in \<open>register\<close>). The fields \<open>errors\<close>,
  \<open>timeout\<close>, \<open>retries\<close>, \<open>backoff\<close> and \<open>cooldown\<close> are stored and never read by the
  registries; they are left out. \<open>hid\<close> is the field \<open>id\<close>, \<open>fallback\<close> is \<open>_fallback\<close>,
  \<open>hfield\<close> is \<open>field\<close>, \<open>hwhen\<close> is \<open>when\<close>. A selector (\<open>labels\<close>, \<open>annotations\<close>) is
  a dictionary from keys to optional values, kept as the list of its items.
\<close>

record BaseHandler =
  hid :: string
  fn :: fnref

record ActivityHandler = BaseHandler +
  activity :: "Activity option"
  fallback :: bool

record 'c ResourceHandler = BaseHandler +
  reason :: "Reason option"
  hfield :: "FieldPath option"
  initial :: "bool option"
  deleted :: "bool option"
  requires_finalizer :: bool
  labels :: "(string \<times> string option) list option"
  annotations :: "(string \<times> string option) list option"
  hwhen :: "('c \<Rightarrow> error + bool) option"

section \<open>Identifiers of handlers\<close>

definition digit_char :: "nat \<Rightarrow> char" where
  "digit_char d = char_of (48 + d)"

function str_of_nat :: "nat \<Rightarrow> string" where
  "str_of_nat n = (if n < 10 then [digit_char n] else str_of_nat (n div 10) @ [digit_char (n mod 10)])"
  by pat_completeness auto
termination
  by (relation "measure (\<lambda>n. n)") auto

declare str_of_nat.simps [simp del]

fun get_callable_id :: "callable \<Rightarrow> error + string" where
  "get_callable_id NoneC = Inl (ValueError ''Cannot build a persistent id of None.'')"
| "get_callable_id (Partial func) = get_callable_id func"
| "get_callable_id (Wrapped wrapped) = get_callable_id wrapped"
| "get_callable_id (Lambda path line) = Inr (''lambda:'' @ path @ '':'' @ str_of_nat line)"
| "get_callable_id (Function qualname) = Inr qualname"
| "get_callable_id (Other r) = Inl (ValueError (''Cannot get id of '' @ r @ ''.''))"

text \<open>Python's \<open>not s\<close> for an optional string: \<open>None\<close> and the empty string are false.\<close>

definition str_truthy :: "string option \<Rightarrow> bool" where
  "str_truthy s = (case s of None \<Rightarrow> False | Some t \<Rightarrow> t \<noteq> [])"

definition generate_id ::
  "callable \<Rightarrow> string option \<Rightarrow> string option \<Rightarrow> string option \<Rightarrow> error + string" where
  "generate_id f ident pfx sfx =
     (case (case ident of Some i \<Rightarrow> Inr i | None \<Rightarrow> get_callable_id f) of
        Inl e \<Rightarrow> Inl e
      | Inr real_id0 \<Rightarrow>
          (let real_id1 = (if \<not> str_truthy sfx then real_id0
                           else real_id0 @ ''/'' @ the sfx);
               real_id2 = (if \<not> str_truthy pfx then real_id1
                           else the pfx @ ''/'' @ real_id1)
           in Inr real_id2))"

section \<open>Registries\<close>

text \<open>
  A \<open>GenericRegistry\<close> holds nothing but the list \<open>_handlers\<close>, so a registry is that list.
  \<open>register\<close> raises before it appends, so an error leaves the registry as it was.
\<close>

definition ActivityRegistry_register ::
  "ActivityHandler list \<Rightarrow> fnref \<Rightarrow> string option \<Rightarrow> Activity option \<Rightarrow> bool
     \<Rightarrow> error + ActivityHandler list" where
  "ActivityRegistry_register handlers f ident act fb =
     (case generate_id (callable f) ident None None of
        Inl e \<Rightarrow> Inl e
      | Inr real_id \<Rightarrow>
          Inr (handlers @ [\<lparr>hid = real_id, fn = f, activity = act, fallback = fb\<rparr>]))"


text \<open>
  The resource body is a nested dictionary; the registries read
  \<open>body.get('metadata', {}).get('labels', {})\<close> and the same for \<open>annotations\<close>.
\<close>

record Meta =
  meta_labels :: "(string \<rightharpoonup> string) option"
  meta_annotations :: "(string \<rightharpoonup> string) option"

record Body =
  metadata :: "Meta option"

text \<open>
  The causes (\<open>kopf/reactor/causation.py\<close> is not part of the sources at hand; the fields
  are those the registries read). An entry of \<open>diff\<close> is \<open>(operation, field, old, new)\<close>.
\<close>

type_synonym DiffItem = "string \<times> FieldPath \<times> string \<times> string"

record ResourceCause =
  resource :: Resource
  body :: Body

record ResourceChangingCause = ResourceCause +
  cause_reason :: Reason
  diff :: "DiffItem list option"
  cause_initial :: bool
  cause_deleted :: bool

text \<open>Python's truth value of an optional boolean: \<open>None\<close> is false.\<close>

definition truthy :: "bool option \<Rightarrow> bool" where
  "truthy b = (case b of None \<Rightarrow> False | Some v \<Rightarrow> v)"

subsection \<open>Matching\<close>

definition matches_field ::
  "('c, 'm) ResourceHandler_scheme \<Rightarrow> FieldPath set \<Rightarrow> bool \<Rightarrow> bool" where
  "matches_field handler changed_fields ignore_fields =
     (ignore_fields \<or>
      (case hfield handler of
         None \<Rightarrow> True
       | Some hf \<Rightarrow> hf = [] \<or> (\<exists>f \<in> changed_fields. take (length hf) f = hf)))"

fun matches_metadata :: "(string \<times> string option) list \<Rightarrow> (string \<rightharpoonup> string) \<Rightarrow> bool" where
  "matches_metadata [] content = True"
| "matches_metadata ((key, v) # pattern) content =
     (case content key of
        None \<Rightarrow> False
      | Some cv \<Rightarrow> if v \<noteq> None \<and> v \<noteq> Some cv then False else matches_metadata pattern content)"

definition body_labels :: "Body \<Rightarrow> (string \<rightharpoonup> string)" where
  "body_labels b =
     (case metadata b of None \<Rightarrow> Map.empty
      | Some m \<Rightarrow> (case meta_labels m of None \<Rightarrow> Map.empty | Some l \<Rightarrow> l))"

definition body_annotations :: "Body \<Rightarrow> (string \<rightharpoonup> string)" where
  "body_annotations b =
     (case metadata b of None \<Rightarrow> Map.empty
      | Some m \<Rightarrow> (case meta_annotations m of None \<Rightarrow> Map.empty | Some l \<Rightarrow> l))"

definition matches_labels :: "('c, 'm) ResourceHandler_scheme \<Rightarrow> Body \<Rightarrow> bool" where
  "matches_labels handler b =
     (case labels handler of
        None \<Rightarrow> True
      | Some pattern \<Rightarrow> pattern = [] \<or> matches_metadata pattern (body_labels b))"

definition matches_annotations :: "('c, 'm) ResourceHandler_scheme \<Rightarrow> Body \<Rightarrow> bool" where
  "matches_annotations handler b =
     (case annotations handler of
        None \<Rightarrow> True
      | Some pattern \<Rightarrow> pattern = [] \<or> matches_metadata pattern (body_annotations b))"

text \<open>
  The callback gets the keyword arguments that \<open>invocation.get_invoke_arguments\<close> builds
  from the cause (not part of the sources at hand): they are a function of the cause, so
  the callback is a function of the cause, returning a boolean or raising.
\<close>

definition matches_filter_callback :: "('c, 'm) ResourceHandler_scheme \<Rightarrow> 'c \<Rightarrow> error + bool" where
  "matches_filter_callback handler cause =
     (case hwhen handler of None \<Rightarrow> Inr True | Some w \<Rightarrow> w cause)"

text \<open>
  \<open>match\<close> builds the list of the four results before \<open>all\<close> reads it: the callback is
  called whatever the first three rules say, and what it raises leaves \<open>match\<close>.
\<close>

definition match ::
  "('z ResourceCause_scheme, 'm) ResourceHandler_scheme \<Rightarrow> 'z ResourceCause_scheme
     \<Rightarrow> FieldPath set \<Rightarrow> bool \<Rightarrow> error + bool" where
  "match handler cause changed_fields ignore_fields =
     (let r1 = matches_field handler (if changed_fields = {} then {} else changed_fields) ignore_fields;
          r2 = matches_labels handler (body cause);
          r3 = matches_annotations handler (body cause)
      in case matches_filter_callback handler cause of
           Inl e \<Rightarrow> Inl e
         | Inr r4 \<Rightarrow> Inr (r1 \<and> r2 \<and> r3 \<and> r4))"

subsection \<open>Generators\<close>

text \<open>
  A generator that is run to its end: the values it yields and, when it stops by an
  exception, that exception. An exception raised in the body of a generator leaves it as
  it is, but for \<open>StopIteration\<close>, which leaves it as a \<open>RuntimeError\<close> (PEP 479):
  \<open>generator_raise\<close>. Whoever iterates over an object (a \<open>for\<close> loop, \<open>yield from\<close>,
  \<open>list(...)\<close>) takes a \<open>StopIteration\<close> of that object for its end: \<open>iterated\<close>.
  \<open>list(...)\<close> returns the values or raises.
\<close>

type_synonym 'a gen = "'a list \<times> error option"

definition generator_raise :: "error \<Rightarrow> error" where
  "generator_raise e =
     (if e = StopIteration then RuntimeError ''generator raised StopIteration'' else e)"

definition iterated :: "error option \<Rightarrow> error option" where
  "iterated x = (if x = Some StopIteration then None else x)"

definition yield :: "'a \<Rightarrow> 'a gen \<Rightarrow> 'a gen" where
  "yield x g = (x # fst g, snd g)"

definition yield_from :: "'a gen \<Rightarrow> 'a gen" where
  "yield_from g = (fst g, map_option generator_raise (iterated (snd g)))"

definition to_list :: "'a gen \<Rightarrow> error + 'a list" where
  "to_list g = (case iterated (snd g) of None \<Rightarrow> Inr (fst g) | Some e \<Rightarrow> Inl e)"

subsection \<open>Deduplication\<close>

fun deduplicated_loop :: "nat set \<Rightarrow> 'm BaseHandler_scheme list \<Rightarrow> 'm BaseHandler_scheme list" where
  "deduplicated_loop seen_ids [] = []"
| "deduplicated_loop seen_ids (handler # handlers) =
     (if py_id (fn handler) \<in> seen_ids then deduplicated_loop seen_ids handlers
      else handler # deduplicated_loop (insert (py_id (fn handler)) seen_ids) handlers)"

definition deduplicated :: "'m BaseHandler_scheme list \<Rightarrow> 'm BaseHandler_scheme list" where
  "deduplicated handlers = deduplicated_loop {} handlers"

definition deduplicated_gen :: "'m BaseHandler_scheme gen \<Rightarrow> 'm BaseHandler_scheme gen" where
  "deduplicated_gen g = (deduplicated (fst g), map_option generator_raise (iterated (snd g)))"


subsection \<open>ActivityRegistry\<close>

text \<open>
  Each loop of \<open>iter_handlers\<close> yields the handlers that pass its test, in the order of the
  list, and \<open>found\<close> is set when the first loop yields. Python reads \<open>a or b and c\<close> as
  \<open>a or (b and c)\<close>.
\<close>

definition ActivityRegistry_iter_handlers :: "ActivityHandler list \<Rightarrow> Activity \<Rightarrow> ActivityHandler list" where
  "ActivityRegistry_iter_handlers handlers act =
     (let regular = filter (\<lambda>handler. activity handler = None \<or>
                                      (activity handler = Some act \<and> \<not> fallback handler)) handlers;
          found = (regular \<noteq> [])
      in if \<not> found
         then regular @ filter (\<lambda>handler. activity handler = None \<or>
                                          (activity handler = Some act \<and> fallback handler)) handlers
         else regular)"

definition ActivityRegistry_get_handlers :: "ActivityHandler list \<Rightarrow> Activity \<Rightarrow> ActivityHandler list" where
  "ActivityRegistry_get_handlers handlers act =
     deduplicated (ActivityRegistry_iter_handlers handlers act)"

subsection \<open>ResourceRegistry and its two subclasses\<close>

fun join :: "string \<Rightarrow> string list \<Rightarrow> string" where
  "join sep [] = []"
| "join sep [x] = x"
| "join sep (x # y # ys) = x @ sep @ join sep (y # ys)"

text \<open>
  \<open>dicts.parse_field\<close> and the enumeration \<open>causation.Reason\<close> are not part of the sources
  at hand: \<open>register\<close> takes them as the parameters \<open>parse_field\<close> (from an optional field
  specification to a path) and \<open>mk_reason\<close> (\<open>Reason(event)\<close>, which may raise).
\<close>

definition ResourceRegistry_register ::
  "('fs option \<Rightarrow> FieldPath) \<Rightarrow> (string \<Rightarrow> error + Reason) \<Rightarrow> 'c ResourceHandler list \<Rightarrow> fnref
     \<Rightarrow> string option \<Rightarrow> Reason option \<Rightarrow> string option \<Rightarrow> 'fs option
     \<Rightarrow> bool option \<Rightarrow> bool option \<Rightarrow> bool
     \<Rightarrow> (string \<times> string option) list option \<Rightarrow> (string \<times> string option) list option
     \<Rightarrow> ('c \<Rightarrow> error + bool) option \<Rightarrow> error + 'c ResourceHandler list" where
  "ResourceRegistry_register parse_field mk_reason handlers f ident rsn event fld ini del rf lbl ann w =
     (case (case (rsn, event) of
              (None, Some ev) \<Rightarrow> (case mk_reason ev of Inl e \<Rightarrow> Inl e | Inr r \<Rightarrow> Inr (Some r))
            | _ \<Rightarrow> Inr rsn) of
        Inl e \<Rightarrow> Inl e
      | Inr rsn' \<Rightarrow>
          (let real_field = (if parse_field fld = [] then None else Some (parse_field fld))
           in case generate_id (callable f) ident None
                     (Some (join ''.'' (case real_field of None \<Rightarrow> [] | Some path \<Rightarrow> path))) of
                Inl e \<Rightarrow> Inl e
              | Inr real_id \<Rightarrow>
                  Inr (handlers @ [\<lparr>hid = real_id, fn = f, reason = rsn', hfield = real_field,
                                    initial = ini, deleted = del, requires_finalizer = rf,
                                    labels = lbl, annotations = ann, hwhen = w\<rparr>])))"

definition ResourceRegistry_iter_extra_fields :: "('c, 'm) ResourceHandler_scheme list \<Rightarrow> FieldPath list" where
  "ResourceRegistry_iter_extra_fields handlers =
     concat (map (\<lambda>handler. case hfield handler of None \<Rightarrow> [] | Some hf \<Rightarrow> if hf = [] then [] else [hf])
                 handlers)"

definition ResourceRegistry_get_extra_fields :: "('c, 'm) ResourceHandler_scheme list \<Rightarrow> FieldPath set" where
  "ResourceRegistry_get_extra_fields handlers = set (ResourceRegistry_iter_extra_fields handlers)"

fun ResourceRegistry_requires_finalizer ::
  "('z ResourceCause_scheme, 'm) ResourceHandler_scheme list \<Rightarrow> 'z ResourceCause_scheme \<Rightarrow> error + bool" where
  "ResourceRegistry_requires_finalizer [] cause = Inr False"
| "ResourceRegistry_requires_finalizer (handler # handlers) cause =
     (if requires_finalizer handler
      then (case match handler cause {} False of
              Inl e \<Rightarrow> Inl e
            | Inr m \<Rightarrow> if m then Inr True else ResourceRegistry_requires_finalizer handlers cause)
      else ResourceRegistry_requires_finalizer handlers cause)"

fun ResourceWatchingRegistry_iter_handlers ::
  "('z ResourceCause_scheme, 'm) ResourceHandler_scheme list \<Rightarrow> 'z ResourceCause_scheme
     \<Rightarrow> ('z ResourceCause_scheme, 'm) ResourceHandler_scheme gen" where
  "ResourceWatchingRegistry_iter_handlers [] cause = ([], None)"
| "ResourceWatchingRegistry_iter_handlers (handler # handlers) cause =
     (case match handler cause {} True of
        Inl e \<Rightarrow> ([], Some (generator_raise e))
      | Inr m \<Rightarrow> if m then yield handler (ResourceWatchingRegistry_iter_handlers handlers cause)
                else ResourceWatchingRegistry_iter_handlers handlers cause)"

definition ResourceWatchingRegistry_get_handlers ::
  "('z ResourceCause_scheme, 'm) ResourceHandler_scheme list \<Rightarrow> 'z ResourceCause_scheme
     \<Rightarrow> error + ('z ResourceCause_scheme, 'm) ResourceHandler_scheme list" where
  "ResourceWatchingRegistry_get_handlers handlers cause =
     to_list (deduplicated_gen (ResourceWatchingRegistry_iter_handlers handlers cause))"

definition changed_fields_of :: "'z ResourceChangingCause_scheme \<Rightarrow> FieldPath set" where
  "changed_fields_of cause =
     set (map (\<lambda>(_, fld, _, _). fld) (case diff cause of None \<Rightarrow> [] | Some d \<Rightarrow> d))"

fun changing_loop ::
  "FieldPath set \<Rightarrow> ('z ResourceChangingCause_scheme, 'm) ResourceHandler_scheme list
     \<Rightarrow> 'z ResourceChangingCause_scheme
     \<Rightarrow> ('z ResourceChangingCause_scheme, 'm) ResourceHandler_scheme gen" where
  "changing_loop changed_fields [] cause = ([], None)"
| "changing_loop changed_fields (handler # handlers) cause =
     (if reason handler = None \<or> reason handler = Some (cause_reason cause)
      then (if truthy (initial handler) \<and> \<not> cause_initial cause
            then changing_loop changed_fields handlers cause
            else if truthy (initial handler) \<and> cause_deleted cause \<and> \<not> truthy (deleted handler)
            then changing_loop changed_fields handlers cause
            else (case match handler cause changed_fields False of
                    Inl e \<Rightarrow> ([], Some (generator_raise e))
                  | Inr m \<Rightarrow> if m then yield handler (changing_loop changed_fields handlers cause)
                            else changing_loop changed_fields handlers cause))
      else changing_loop changed_fields handlers cause)"

definition ResourceChangingRegistry_iter_handlers ::
  "('z ResourceChangingCause_scheme, 'm) ResourceHandler_scheme list
     \<Rightarrow> 'z ResourceChangingCause_scheme
     \<Rightarrow> ('z ResourceChangingCause_scheme, 'm) ResourceHandler_scheme gen" where
  "ResourceChangingRegistry_iter_handlers handlers cause =
     changing_loop (changed_fields_of cause) handlers cause"

definition ResourceChangingRegistry_get_handlers ::
  "('z ResourceChangingCause_scheme, 'm) ResourceHandler_scheme list
     \<Rightarrow> 'z ResourceChangingCause_scheme
     \<Rightarrow> error + ('z ResourceChangingCause_scheme, 'm) ResourceHandler_scheme list" where
  "ResourceChangingRegistry_get_handlers handlers cause =
     to_list (deduplicated_gen (ResourceChangingRegistry_iter_handlers handlers cause))"


subsection \<open>OperatorRegistry\<close>

text \<open>
  The two dictionaries are \<open>collections.defaultdict\<close>s: \<open>d[k]\<close> of a missing key stores a new
  empty registry under \<open>k\<close> and returns it, while \<open>k in d\<close> only looks. Every method
  returns its result together with the registry it leaves behind. The parameter \<open>group\<close>
  is \<open>grp\<close> below.
\<close>

record OperatorRegistry =
  activity_handlers :: "ActivityHandler list"
  resource_watching_handlers :: "Resource \<rightharpoonup> ResourceCause ResourceHandler list"
  resource_changing_handlers :: "Resource \<rightharpoonup> ResourceChangingCause ResourceHandler list"

definition dd_contains :: "('k \<rightharpoonup> 'v list) \<Rightarrow> 'k \<Rightarrow> bool" where
  "dd_contains d k = (d k \<noteq> None)"

definition dd_getitem :: "('k \<rightharpoonup> 'v list) \<Rightarrow> 'k \<Rightarrow> 'v list \<times> ('k \<rightharpoonup> 'v list)" where
  "dd_getitem d k = (case d k of Some v \<Rightarrow> (v, d) | None \<Rightarrow> ([], d(k \<mapsto> [])))"

definition OperatorRegistry_init :: OperatorRegistry where
  "OperatorRegistry_init =
     \<lparr>activity_handlers = [], resource_watching_handlers = Map.empty,
      resource_changing_handlers = Map.empty\<rparr>"

definition OperatorRegistry_resources :: "OperatorRegistry \<Rightarrow> Resource set" where
  "OperatorRegistry_resources reg =
     dom (resource_watching_handlers reg) \<union> dom (resource_changing_handlers reg)"

definition OperatorRegistry_register_activity_handler ::
  "OperatorRegistry \<Rightarrow> fnref \<Rightarrow> string option \<Rightarrow> Activity option \<Rightarrow> bool
     \<Rightarrow> (error + fnref) \<times> OperatorRegistry" where
  "OperatorRegistry_register_activity_handler reg f ident act fb =
     (case ActivityRegistry_register (activity_handlers reg) f ident act fb of
        Inl e \<Rightarrow> (Inl e, reg)
      | Inr handlers' \<Rightarrow> (Inr f, reg\<lparr>activity_handlers := handlers'\<rparr>))"

definition OperatorRegistry_register_resource_watching_handler ::
  "('fs option \<Rightarrow> FieldPath) \<Rightarrow> (string \<Rightarrow> error + Reason) \<Rightarrow> OperatorRegistry
     \<Rightarrow> string \<Rightarrow> string \<Rightarrow> string \<Rightarrow> fnref \<Rightarrow> string option
     \<Rightarrow> (string \<times> string option) list option \<Rightarrow> (string \<times> string option) list option
     \<Rightarrow> (ResourceCause \<Rightarrow> error + bool) option \<Rightarrow> (error + fnref) \<times> OperatorRegistry" where
  "OperatorRegistry_register_resource_watching_handler parse_field mk_reason reg
       grp version plural f ident lbl ann w =
     (let res = (grp, version, plural);
          (registry, d) = dd_getitem (resource_watching_handlers reg) res
      in case ResourceRegistry_register parse_field mk_reason registry f ident
                None None None None None False lbl ann w of
           Inl e \<Rightarrow> (Inl e, reg\<lparr>resource_watching_handlers := d\<rparr>)
         | Inr registry' \<Rightarrow> (Inr f, reg\<lparr>resource_watching_handlers := d(res \<mapsto> registry')\<rparr>))"

definition OperatorRegistry_register_resource_changing_handler ::
  "('fs option \<Rightarrow> FieldPath) \<Rightarrow> (string \<Rightarrow> error + Reason) \<Rightarrow> OperatorRegistry
     \<Rightarrow> string \<Rightarrow> string \<Rightarrow> string \<Rightarrow> fnref \<Rightarrow> string option
     \<Rightarrow> Reason option \<Rightarrow> string option \<Rightarrow> 'fs option
     \<Rightarrow> bool option \<Rightarrow> bool option \<Rightarrow> bool
     \<Rightarrow> (string \<times> string option) list option \<Rightarrow> (string \<times> string option) list option
     \<Rightarrow> (ResourceChangingCause \<Rightarrow> error + bool) option \<Rightarrow> (error + fnref) \<times> OperatorRegistry" where
  "OperatorRegistry_register_resource_changing_handler parse_field mk_reason reg
       grp version plural f ident rsn event fld ini del rf lbl ann w =
     (let res = (grp, version, plural);
          (registry, d) = dd_getitem (resource_changing_handlers reg) res
      in case ResourceRegistry_register parse_field mk_reason registry f ident
                rsn event fld ini del rf lbl ann w of
           Inl e \<Rightarrow> (Inl e, reg\<lparr>resource_changing_handlers := d\<rparr>)
         | Inr registry' \<Rightarrow> (Inr f, reg\<lparr>resource_changing_handlers := d(res \<mapsto> registry')\<rparr>))"

definition OperatorRegistry_has_activity_handlers :: "OperatorRegistry \<Rightarrow> bool \<times> OperatorRegistry" where
  "OperatorRegistry_has_activity_handlers reg = (activity_handlers reg \<noteq> [], reg)"

definition OperatorRegistry_has_resource_watching_handlers ::
  "OperatorRegistry \<Rightarrow> Resource \<Rightarrow> bool \<times> OperatorRegistry" where
  "OperatorRegistry_has_resource_watching_handlers reg res =
     (if dd_contains (resource_watching_handlers reg) res
      then (let (registry, d) = dd_getitem (resource_watching_handlers reg) res
            in (registry \<noteq> [], reg\<lparr>resource_watching_handlers := d\<rparr>))
      else (False, reg))"

definition OperatorRegistry_has_resource_changing_handlers ::
  "OperatorRegistry \<Rightarrow> Resource \<Rightarrow> bool \<times> OperatorRegistry" where
  "OperatorRegistry_has_resource_changing_handlers reg res =
     (if dd_contains (resource_changing_handlers reg) res
      then (let (registry, d) = dd_getitem (resource_changing_handlers reg) res
            in (registry \<noteq> [], reg\<lparr>resource_changing_handlers := d\<rparr>))
      else (False, reg))"

definition OperatorRegistry_iter_activity_handlers ::
  "OperatorRegistry \<Rightarrow> Activity \<Rightarrow> ActivityHandler list \<times> OperatorRegistry" where
  "OperatorRegistry_iter_activity_handlers reg act =
     (ActivityRegistry_iter_handlers (activity_handlers reg) act, reg)"

definition OperatorRegistry_get_activity_handlers ::
  "OperatorRegistry \<Rightarrow> Activity \<Rightarrow> ActivityHandler list \<times> OperatorRegistry" where
  "OperatorRegistry_get_activity_handlers reg act =
     (let (g, reg') = OperatorRegistry_iter_activity_handlers reg act in (deduplicated g, reg'))"

definition OperatorRegistry_iter_resource_watching_handlers ::
  "OperatorRegistry \<Rightarrow> ResourceCause \<Rightarrow> ResourceCause ResourceHandler gen \<times> OperatorRegistry" where
  "OperatorRegistry_iter_resource_watching_handlers reg cause =
     (if dd_contains (resource_watching_handlers reg) (resource cause)
      then (let (registry, d) = dd_getitem (resource_watching_handlers reg) (resource cause)
            in (yield_from (ResourceWatchingRegistry_iter_handlers registry cause),
                reg\<lparr>resource_watching_handlers := d\<rparr>))
      else (([], None), reg))"

definition OperatorRegistry_iter_resource_changing_handlers ::
  "OperatorRegistry \<Rightarrow> ResourceChangingCause
     \<Rightarrow> ResourceChangingCause ResourceHandler gen \<times> OperatorRegistry" where
  "OperatorRegistry_iter_resource_changing_handlers reg cause =
     (if dd_contains (resource_changing_handlers reg) (resource cause)
      then (let (registry, d) = dd_getitem (resource_changing_handlers reg) (resource cause)
            in (yield_from (ResourceChangingRegistry_iter_handlers registry cause),
                reg\<lparr>resource_changing_handlers := d\<rparr>))
      else (([], None), reg))"

definition OperatorRegistry_get_resource_watching_handlers ::
  "OperatorRegistry \<Rightarrow> ResourceCause
     \<Rightarrow> (error + ResourceCause ResourceHandler list) \<times> OperatorRegistry" where
  "OperatorRegistry_get_resource_watching_handlers reg cause =
     (let (g, reg') = OperatorRegistry_iter_resource_watching_handlers reg cause
      in (to_list (deduplicated_gen g), reg'))"

definition OperatorRegistry_get_resource_changing_handlers ::
  "OperatorRegistry \<Rightarrow> ResourceChangingCause
     \<Rightarrow> (error + ResourceChangingCause ResourceHandler list) \<times> OperatorRegistry" where
  "OperatorRegistry_get_resource_changing_handlers reg cause =
     (let (g, reg') = OperatorRegistry_iter_resource_changing_handlers reg cause
      in (to_list (deduplicated_gen g), reg'))"

definition OperatorRegistry_iter_extra_fields ::
  "OperatorRegistry \<Rightarrow> Resource \<Rightarrow> FieldPath list \<times> OperatorRegistry" where
  "OperatorRegistry_iter_extra_fields reg res =
     (if dd_contains (resource_changing_handlers reg) res
      then (let (registry, d) = dd_getitem (resource_changing_handlers reg) res
            in (ResourceRegistry_iter_extra_fields registry, reg\<lparr>resource_changing_handlers := d\<rparr>))
      else ([], reg))"

definition OperatorRegistry_get_extra_fields ::
  "OperatorRegistry \<Rightarrow> Resource \<Rightarrow> FieldPath set \<times> OperatorRegistry" where
  "OperatorRegistry_get_extra_fields reg res =
     (let (fields, reg') = OperatorRegistry_iter_extra_fields reg res in (set fields, reg'))"

definition OperatorRegistry_requires_finalizer ::
  "OperatorRegistry \<Rightarrow> Resource \<Rightarrow> ResourceChangingCause \<Rightarrow> (error + bool) \<times> OperatorRegistry" where
  "OperatorRegistry_requires_finalizer reg res cause =
     (if dd_contains (resource_changing_handlers reg) res
      then (let (registry, d) = dd_getitem (resource_changing_handlers reg) res
            in (ResourceRegistry_requires_finalizer registry cause,
                reg\<lparr>resource_changing_handlers := d\<rparr>))
      else (Inr False, reg))"


section \<open>Example values\<close>

text \<open>
  A handler with no filter at all and a cause of the resource \<open>(apps, v1, deployments)\<close>;
  the examples below are record updates of them.
\<close>

definition example_handler :: "ResourceChangingCause ResourceHandler" where
  "example_handler =
     \<lparr>hid = ''fn'', fn = \<lparr>py_id = 1, callable = Function ''fn''\<rparr>,
      reason = None, hfield = None, initial = None, deleted = None, requires_finalizer = False,
      labels = None, annotations = None, hwhen = None\<rparr>"

definition example_cause :: ResourceChangingCause where
  "example_cause =
     \<lparr>resource = (''apps'', ''v1'', ''deployments''), body = \<lparr>metadata = None\<rparr>,
      cause_reason = ''update'', diff = None, cause_initial = False, cause_deleted = False\<rparr>"

definition example_body :: "(string \<rightharpoonup> string) \<Rightarrow> (string \<rightharpoonup> string) \<Rightarrow> Body" where
  "example_body l a = \<lparr>metadata = Some \<lparr>meta_labels = Some l, meta_annotations = Some a\<rparr>\<rparr>"

section \<open>Properties of the generators\<close>

lemma generator_raise_not_StopIteration: "generator_raise e \<noteq> StopIteration"
  by (simp add: generator_raise_def)

lemma delegated_generator_raise:
  "iterated (Some (generator_raise e)) = Some (generator_raise e)"
  "generator_raise (generator_raise e) = generator_raise e"
  by (simp_all add: iterated_def generator_raise_def)

lemma delegated_no_StopIteration:
  "x \<noteq> Some StopIteration \<Longrightarrow> map_option generator_raise (iterated x) = x"
  by (cases x) (simp_all add: iterated_def generator_raise_def)

lemma watching_iter_no_StopIteration:
  "snd (ResourceWatchingRegistry_iter_handlers hs c) \<noteq> Some StopIteration"
  by (induction hs) (simp_all add: yield_def generator_raise_not_StopIteration split: sum.splits)

lemma changing_loop_no_StopIteration:
  "snd (changing_loop cf hs c) \<noteq> Some StopIteration"
  by (induction hs) (simp_all add: yield_def generator_raise_not_StopIteration split: sum.splits)

lemma yield_from_watching:
  "yield_from (ResourceWatchingRegistry_iter_handlers hs c) = ResourceWatchingRegistry_iter_handlers hs c"
  by (simp add: yield_from_def delegated_no_StopIteration [OF watching_iter_no_StopIteration])

lemma yield_from_changing:
  "yield_from (ResourceChangingRegistry_iter_handlers hs c) = ResourceChangingRegistry_iter_handlers hs c"
  by (simp add: yield_from_def ResourceChangingRegistry_iter_handlers_def
      delegated_no_StopIteration [OF changing_loop_no_StopIteration])

section \<open>Properties of the identifiers\<close>

lemma get_callable_id_ValueError:
  "get_callable_id c = Inl e \<Longrightarrow> \<exists>msg. e = ValueError msg"
  by (induction c) auto

text \<open>
  C10. When \<open>generate_id\<close> is given an explicit id, the result does not depend on the
  callback and is never an error, whatever the callback is: it is the explicit id, with
  \<open>/suffix\<close> appended when a non-empty suffix is given and \<open>prefix/\<close> prepended when a
  non-empty prefix is given.
\<close>

theorem generate_id_explicit:
  "generate_id f (Some i) pfx sfx =
     Inr ((case pfx of None \<Rightarrow> [] | Some p \<Rightarrow> if p = [] then [] else p @ ''/'') @ i @
          (case sfx of None \<Rightarrow> [] | Some s \<Rightarrow> if s = [] then [] else ''/'' @ s))"
  by (simp add: generate_id_def str_truthy_def split: option.splits)

theorem generate_id_explicit_witness:
  "generate_id NoneC (Some ''x'') (Some ''p'') (Some ''spec.replicas'') = Inr ''p/x/spec.replicas''
   \<and> generate_id (Other ''<object>'') (Some ''x'') None (Some []) = Inr ''x''"
  using generate_id_explicit [of NoneC "''x''" "Some ''p''" "Some ''spec.replicas''"]
        generate_id_explicit [of "Other ''<object>''" "''x''" None "Some []"]
  by simp

lemma ResourceRegistry_register_raises:
  assumes "get_callable_id (callable f) = Inl e"
  shows "\<exists>e'. ResourceRegistry_register parse_field mk_reason hs f None
           rsn event fld ini del rf lbl ann w = Inl e'
         \<and> ((rsn \<noteq> None \<or> event = None \<or> (\<exists>r. mk_reason (the event) = Inr r)) \<longrightarrow> e' = e)"
  using assms
  by (auto simp add: ResourceRegistry_register_def generate_id_def Let_def
      split: option.splits sum.splits)

text \<open>
  C9, as stated, fails: a callback with no derivable identity (here \<open>None\<close>) is accepted
  by \<open>generate_id\<close> and by \<open>register\<close> when an explicit id comes with it, since the
  callback is then not looked at. And a resource registration with no explicit id whose
  deprecated \<open>event\<close> is not a reason (\<open>Reason(event)\<close> raises for a string that is none of
  the values of the enumeration) fails with the error of that conversion, before the
  callback is looked at.
\<close>

theorem register_invalid_callable_counterexample:
  "get_callable_id NoneC = Inl (ValueError ''Cannot build a persistent id of None.'')
   \<and> generate_id NoneC (Some ''x'') None None = Inr ''x''
   \<and> ActivityRegistry_register [] \<lparr>py_id = 0, callable = NoneC\<rparr> (Some ''x'') None False =
       Inr [\<lparr>hid = ''x'', fn = \<lparr>py_id = 0, callable = NoneC\<rparr>, activity = None, fallback = False\<rparr>]
   \<and> ResourceRegistry_register (\<lambda>x. case x of None \<Rightarrow> [] | Some (path :: string list) \<Rightarrow> path)
         (\<lambda>ev. Inl (ValueError (ev @ '' is not a valid Reason'')))
         ([] :: ResourceChangingCause ResourceHandler list) \<lparr>py_id = 0, callable = NoneC\<rparr>
         None None (Some ''bogus'') None None None False None None None =
       Inl (ValueError ''bogus is not a valid Reason'')"
  by (simp add: generate_id_def ActivityRegistry_register_def ResourceRegistry_register_def
      str_truthy_def)

text \<open>
  C9, amended. When no explicit id is given and the identity of the callback cannot be
  derived (\<open>get_callable_id\<close> raises, which it does with a \<open>ValueError\<close> only), then
  \<open>generate_id\<close> raises that error, and every registration raises: the registrations of
  an activity handler raise that error and leave the registry as it was; the
  registrations of a resource handler raise that error, or, when the deprecated \<open>event\<close> is
  given without a reason and is not a reason, the error of that conversion, which comes
  first. No handler is stored: a resource registry is left as it was, and the
  \<open>OperatorRegistry\<close> is left as it was but for an empty registry under the resource, when
  the resource had none.
\<close>

theorem register_invalid_callable:
  assumes "get_callable_id (callable f) = Inl e"
  shows "(\<exists>msg. e = ValueError msg)
    \<and> generate_id (callable f) None pfx sfx = Inl e
    \<and> ActivityRegistry_register handlers f None act fb = Inl e
    \<and> OperatorRegistry_register_activity_handler reg f None act fb = (Inl e, reg)
    \<and> ((rsn \<noteq> None \<or> event = None \<or> (\<exists>r. mk_reason (the event) = Inr r)) \<longrightarrow>
         ResourceRegistry_register parse_field mk_reason rhandlers f None
           rsn event fld ini del rf lbl ann w = Inl e)
    \<and> (\<exists>e'. ResourceRegistry_register parse_field mk_reason rhandlers f None
           rsn event fld ini del rf lbl ann w = Inl e')
    \<and> OperatorRegistry_register_resource_watching_handler parse_field mk_reason reg
           grp version plural f None lbl ann ww =
         (Inl e, reg\<lparr>resource_watching_handlers :=
            (case resource_watching_handlers reg (grp, version, plural) of
               None \<Rightarrow> (resource_watching_handlers reg)((grp, version, plural) \<mapsto> [])
             | Some registry \<Rightarrow> resource_watching_handlers reg)\<rparr>)
    \<and> ((rsn \<noteq> None \<or> event = None \<or> (\<exists>r. mk_reason (the event) = Inr r)) \<longrightarrow>
         fst (OperatorRegistry_register_resource_changing_handler parse_field mk_reason reg
           grp version plural f None rsn event fld ini del rf lbl ann wch) = Inl e)
    \<and> (\<exists>e'. fst (OperatorRegistry_register_resource_changing_handler parse_field mk_reason reg
           grp version plural f None rsn event fld ini del rf lbl ann wch) = Inl e')
    \<and> snd (OperatorRegistry_register_resource_changing_handler parse_field mk_reason reg
           grp version plural f None rsn event fld ini del rf lbl ann wch) =
         reg\<lparr>resource_changing_handlers :=
            (case resource_changing_handlers reg (grp, version, plural) of
               None \<Rightarrow> (resource_changing_handlers reg)((grp, version, plural) \<mapsto> [])
             | Some registry \<Rightarrow> resource_changing_handlers reg)\<rparr>"
proof -
  let ?ok = "rsn \<noteq> None \<or> event = None \<or> (\<exists>r. mk_reason (the event) = Inr r)"
  have a: "ActivityRegistry_register handlers f None act fb = Inl e"
    using assms by (simp add: ActivityRegistry_register_def generate_id_def)
  obtain e1 where e1: "ResourceRegistry_register parse_field mk_reason rhandlers f None
           rsn event fld ini del rf lbl ann w = Inl e1" "?ok \<longrightarrow> e1 = e"
    using ResourceRegistry_register_raises [OF assms] by blast
  have w1: "OperatorRegistry_register_resource_watching_handler parse_field mk_reason reg
           grp version plural f None lbl ann ww =
         (Inl e, reg\<lparr>resource_watching_handlers :=
            (case resource_watching_handlers reg (grp, version, plural) of
               None \<Rightarrow> (resource_watching_handlers reg)((grp, version, plural) \<mapsto> [])
             | Some registry \<Rightarrow> resource_watching_handlers reg)\<rparr>)"
  proof -
    obtain registry d where d: "dd_getitem (resource_watching_handlers reg) (grp, version, plural)
        = (registry, d)"
      by (cases "dd_getitem (resource_watching_handlers reg) (grp, version, plural)") auto
    obtain e2 where "ResourceRegistry_register parse_field mk_reason registry f None
           None None None None None False lbl ann ww = Inl e2" "e2 = e"
      using ResourceRegistry_register_raises [OF assms, of parse_field mk_reason registry
          None None None None None False lbl ann ww] by auto
    then show ?thesis
      using d by (auto simp add: OperatorRegistry_register_resource_watching_handler_def
          dd_getitem_def split: option.splits)
  qed
  have c: "\<exists>e3. OperatorRegistry_register_resource_changing_handler parse_field mk_reason reg
           grp version plural f None rsn event fld ini del rf lbl ann wch =
         (Inl e3, reg\<lparr>resource_changing_handlers :=
            (case resource_changing_handlers reg (grp, version, plural) of
               None \<Rightarrow> (resource_changing_handlers reg)((grp, version, plural) \<mapsto> [])
             | Some registry \<Rightarrow> resource_changing_handlers reg)\<rparr>) \<and> (?ok \<longrightarrow> e3 = e)"
  proof -
    obtain registry d where d: "dd_getitem (resource_changing_handlers reg) (grp, version, plural)
        = (registry, d)"
      by (cases "dd_getitem (resource_changing_handlers reg) (grp, version, plural)") auto
    obtain e3 where "ResourceRegistry_register parse_field mk_reason registry f None
           rsn event fld ini del rf lbl ann wch = Inl e3" "?ok \<longrightarrow> e3 = e"
      using ResourceRegistry_register_raises [OF assms, of parse_field mk_reason registry
          rsn event fld ini del rf lbl ann wch] by blast
    then show ?thesis
      using d by (auto simp add: OperatorRegistry_register_resource_changing_handler_def
          dd_getitem_def split: option.splits)
  qed
  have g: "generate_id (callable f) None pfx sfx = Inl e"
    using assms by (simp add: generate_id_def)
  have o: "OperatorRegistry_register_activity_handler reg f None act fb = (Inl e, reg)"
    using assms by (simp add: OperatorRegistry_register_activity_handler_def
        ActivityRegistry_register_def generate_id_def)
  from c obtain e3 where c3: "OperatorRegistry_register_resource_changing_handler parse_field
           mk_reason reg grp version plural f None rsn event fld ini del rf lbl ann wch =
         (Inl e3, reg\<lparr>resource_changing_handlers :=
            (case resource_changing_handlers reg (grp, version, plural) of
               None \<Rightarrow> (resource_changing_handlers reg)((grp, version, plural) \<mapsto> [])
             | Some registry \<Rightarrow> resource_changing_handlers reg)\<rparr>)" "?ok \<longrightarrow> e3 = e"
    by blast
  show ?thesis
    using get_callable_id_ValueError [OF assms] g a o e1 w1 c3 by simp
qed

theorem register_invalid_callable_witness:
  "get_callable_id (callable \<lparr>py_id = 7, callable = Partial (Other ''<object>'')\<rparr>) =
     Inl (ValueError ''Cannot get id of <object>.'')
   \<and> generate_id (Partial (Other ''<object>'')) None None (Some ''spec'') =
     Inl (ValueError ''Cannot get id of <object>.'')
   \<and> ActivityRegistry_register [] \<lparr>py_id = 7, callable = Partial (Other ''<object>'')\<rparr> None None False =
     Inl (ValueError ''Cannot get id of <object>.'')
   \<and> OperatorRegistry_register_resource_watching_handler
       (\<lambda>x. case x of None \<Rightarrow> [] | Some (p::string list) \<Rightarrow> p) Inr OperatorRegistry_init
       ''apps'' ''v1'' ''deployments'' \<lparr>py_id = 7, callable = Partial (Other ''<object>'')\<rparr>
       None None None None =
     (Inl (ValueError ''Cannot get id of <object>.''),
      OperatorRegistry_init\<lparr>resource_watching_handlers := [(''apps'', ''v1'', ''deployments'') \<mapsto> []]\<rparr>)"
proof -
  have h: "get_callable_id (callable \<lparr>py_id = 7, callable = Partial (Other ''<object>'')\<rparr>) =
     Inl (ValueError ''Cannot get id of <object>.'')"
    by simp
  show ?thesis
    using register_invalid_callable [OF h, where pfx = None and sfx = "Some ''spec''"
        and handlers = "[]" and act = None and fb = False and reg = OperatorRegistry_init
        and rsn = None and event = None and mk_reason = Inr
        and parse_field = "\<lambda>x. case x of None \<Rightarrow> [] | Some (p::string list) \<Rightarrow> p"
        and rhandlers = "[]" and fld = None and ini = None and del = None and rf = False
        and lbl = None and ann = None and w = "None :: (ResourceCause \<Rightarrow> error + bool) option"
        and ww = None and wch = None
        and grp = "''apps''" and version = "''v1''" and plural = "''deployments''"]
    by (simp add: OperatorRegistry_init_def)
qed

section \<open>Properties of the deduplication\<close>

lemma deduplicated_loop_subseq: "subseq (deduplicated_loop seen hs) hs"
  by (induction hs arbitrary: seen) auto


lemma deduplicated_loop_keys:
  "distinct (map (\<lambda>h. py_id (fn h)) (deduplicated_loop seen hs))
   \<and> set (map (\<lambda>h. py_id (fn h)) (deduplicated_loop seen hs)) = set (map (\<lambda>h. py_id (fn h)) hs) - seen"
  by (induction hs arbitrary: seen) auto

lemma all_less_Suc_shift: "(\<forall>j < Suc i. Q j) \<longleftrightarrow> Q 0 \<and> (\<forall>j < i. Q (Suc j))"
  by (metis less_Suc_eq_0_disj)

lemma deduplicated_loop_first:
  "deduplicated_loop seen hs =
     map (\<lambda>i. hs ! i)
       (filter (\<lambda>i. py_id (fn (hs ! i)) \<notin> seen \<and> (\<forall>j < i. py_id (fn (hs ! j)) \<noteq> py_id (fn (hs ! i))))
          [0..<length hs])"
proof (induction hs arbitrary: seen)
  case Nil
  show ?case by simp
next
  case (Cons h hs)
  have upt: "[0..<Suc (length hs)] = 0 # map Suc [0..<length hs]"
    by (simp add: upt_conv_Cons map_Suc_upt del: upt_Suc)
  show ?case
  proof (cases "py_id (fn h) \<in> seen")
    case True
    have "filter (\<lambda>i. py_id (fn (hs ! i)) \<notin> seen \<and> (\<forall>j < i. py_id (fn (hs ! j)) \<noteq> py_id (fn (hs ! i))))
            [0..<length hs] =
          filter (\<lambda>i. py_id (fn (hs ! i)) \<notin> seen \<and> py_id (fn h) \<noteq> py_id (fn (hs ! i))
                    \<and> (\<forall>j < i. py_id (fn (hs ! j)) \<noteq> py_id (fn (hs ! i))))
            [0..<length hs]"
      using True by (intro filter_cong) auto
    then show ?thesis
      using True Cons.IH [of seen]
      by (simp add: upt filter_map comp_def all_less_Suc_shift del: upt_Suc)
  next
    case False
    have "filter (\<lambda>i. py_id (fn (hs ! i)) \<notin> insert (py_id (fn h)) seen
                    \<and> (\<forall>j < i. py_id (fn (hs ! j)) \<noteq> py_id (fn (hs ! i))))
            [0..<length hs] =
          filter (\<lambda>i. py_id (fn (hs ! i)) \<notin> seen \<and> py_id (fn h) \<noteq> py_id (fn (hs ! i))
                    \<and> (\<forall>j < i. py_id (fn (hs ! j)) \<noteq> py_id (fn (hs ! i))))
            [0..<length hs]"
      by (intro filter_cong) auto
    then show ?thesis
      using False Cons.IH [of "insert (py_id (fn h)) seen"]
      by (simp add: upt filter_map comp_def all_less_Suc_shift del: upt_Suc)
  qed
qed

text \<open>
  C5. The deduplicator returns the handlers at the positions where a callback identity
  (\<open>id(handler.fn)\<close>, not the registration id) occurs for the first time, in their order:
  a sub-sequence of its input, in which no identity occurs twice and every identity of the
  input occurs. So two records with different ids and the same callback give that callback
  once, at the position of the first.
\<close>

theorem deduplicated_first_occurrences:
  "deduplicated hs =
     map (\<lambda>i. hs ! i)
       (filter (\<lambda>i. \<forall>j < i. py_id (fn (hs ! j)) \<noteq> py_id (fn (hs ! i))) [0..<length hs])
   \<and> subseq (deduplicated hs) hs
   \<and> distinct (map (\<lambda>h. py_id (fn h)) (deduplicated hs))
   \<and> set (map (\<lambda>h. py_id (fn h)) (deduplicated hs)) = set (map (\<lambda>h. py_id (fn h)) hs)"
  using deduplicated_loop_first [of "{}" hs] deduplicated_loop_subseq [of "{}" hs]
    deduplicated_loop_keys [of "{}" hs]
  by (simp add: deduplicated_def)

theorem deduplicated_first_occurrences_witness:
  "deduplicated
     [example_handler\<lparr>hid := ''fn/create''\<rparr>,
      example_handler\<lparr>hid := ''other'', fn := \<lparr>py_id = 2, callable = Function ''other''\<rparr>\<rparr>,
      example_handler\<lparr>hid := ''fn/resume''\<rparr>] =
     [example_handler\<lparr>hid := ''fn/create''\<rparr>,
      example_handler\<lparr>hid := ''other'', fn := \<lparr>py_id = 2, callable = Function ''other''\<rparr>\<rparr>]
   \<and> distinct (map (\<lambda>h. py_id (fn h)) (deduplicated
     [example_handler\<lparr>hid := ''fn/create''\<rparr>,
      example_handler\<lparr>hid := ''other'', fn := \<lparr>py_id = 2, callable = Function ''other''\<rparr>\<rparr>,
      example_handler\<lparr>hid := ''fn/resume''\<rparr>]))"
  using deduplicated_first_occurrences [of
     "[example_handler\<lparr>hid := ''fn/create''\<rparr>,
      example_handler\<lparr>hid := ''other'', fn := \<lparr>py_id = 2, callable = Function ''other''\<rparr>\<rparr>,
      example_handler\<lparr>hid := ''fn/resume''\<rparr>]"]
  by (simp add: deduplicated_def example_handler_def)


section \<open>Properties of the matching rules\<close>

lemma take_eq_prefix: "take (length hf) f = hf \<longleftrightarrow> prefix hf f"
  by (metis prefix_def append_eq_conv_conj append_take_drop_id)

lemma changed_fields_of_char:
  "changed_fields_of c =
     (case diff c of None \<Rightarrow> {} | Some d \<Rightarrow> {p. \<exists>op old new. (op, p, old, new) \<in> set d})"
  by (force simp add: changed_fields_of_def split: option.splits)

text \<open>
  \<open>register\<close> stores \<open>None\<close> for an empty path (\<open>parse_field(field) or None\<close>), so no
  handler of a registry filled by \<open>register\<close> has the empty path as its field.
\<close>

lemma ResourceRegistry_register_field_not_empty:
  assumes "\<forall>h \<in> set hs. hfield h \<noteq> Some []"
    and "ResourceRegistry_register parse_field mk_reason hs f ident rsn event fld ini del rf lbl ann w
           = Inr hs'"
  shows "\<forall>h \<in> set hs'. hfield h \<noteq> Some []"
  using assms
  by (auto simp add: ResourceRegistry_register_def Let_def split: sum.splits if_splits)

text \<open>
  C3. For a handler whose field is not the empty path (none of a registry is), the field
  rule passes iff \<open>ignore_fields\<close> is true, or the handler has no field, or the field of the
  handler is a prefix of a changed path (the path itself or a descendant). A change of a
  strict ancestor of the field alone does not pass. For a \<open>ResourceChangingCause\<close> the
  changed paths are the set of the paths of \<open>cause.diff\<close>, and the registry applies the rule
  to them with \<open>ignore_fields\<close> false.
\<close>

theorem matches_field_iff:
  assumes "hfield h \<noteq> Some []"
  shows "(matches_field h changed ign \<longleftrightarrow>
           ign \<or> hfield h = None \<or> (\<exists>p \<in> changed. prefix (the (hfield h)) p))
     \<and> (hfield h \<noteq> None \<and> strict_prefix p (the (hfield h)) \<longrightarrow> \<not> matches_field h {p} False)
     \<and> changed_fields_of c =
         (case diff c of None \<Rightarrow> {} | Some d \<Rightarrow> {p. \<exists>op old new. (op, p, old, new) \<in> set d})
     \<and> (reason h = None \<and> initial h = None \<and> labels h = None \<and> annotations h = None
           \<and> hwhen h = None \<longrightarrow>
         ResourceChangingRegistry_iter_handlers [h] c =
           (if matches_field h (changed_fields_of c) False then [h] else [], None))"
proof (intro conjI)
  show "matches_field h changed ign \<longleftrightarrow>
           ign \<or> hfield h = None \<or> (\<exists>p \<in> changed. prefix (the (hfield h)) p)"
    using assms by (auto simp add: matches_field_def take_eq_prefix split: option.splits)
  show "hfield h \<noteq> None \<and> strict_prefix p (the (hfield h)) \<longrightarrow> \<not> matches_field h {p} False"
    using assms by (auto simp add: matches_field_def take_eq_prefix split: option.splits)
  show "changed_fields_of c =
         (case diff c of None \<Rightarrow> {} | Some d \<Rightarrow> {p. \<exists>op old new. (op, p, old, new) \<in> set d})"
    by (rule changed_fields_of_char)
  show "reason h = None \<and> initial h = None \<and> labels h = None \<and> annotations h = None
           \<and> hwhen h = None \<longrightarrow>
         ResourceChangingRegistry_iter_handlers [h] c =
           (if matches_field h (changed_fields_of c) False then [h] else [], None)"
    by (simp add: ResourceChangingRegistry_iter_handlers_def match_def truthy_def yield_def
        matches_labels_def matches_annotations_def matches_filter_callback_def)
qed


theorem matches_field_iff_witness:
  "hfield (example_handler\<lparr>hfield := Some [''spec'']\<rparr>) \<noteq> Some []
   \<and> matches_field (example_handler\<lparr>hfield := Some [''spec'']\<rparr>) {[''spec'', ''replicas'']} False
   \<and> \<not> matches_field (example_handler\<lparr>hfield := Some [''spec'']\<rparr>) {[''status'', ''phase'']} False
   \<and> \<not> matches_field (example_handler\<lparr>hfield := Some [''spec'', ''replicas'']\<rparr>) {[''spec'']} False
   \<and> ResourceChangingRegistry_iter_handlers [example_handler\<lparr>hfield := Some [''spec'']\<rparr>]
        (example_cause\<lparr>diff := Some [(''change'', [''spec'', ''replicas''], ''1'', ''3'')]\<rparr>) =
      ([example_handler\<lparr>hfield := Some [''spec'']\<rparr>], None)"
proof -
  have h: "hfield (example_handler\<lparr>hfield := Some [''spec'']\<rparr>) \<noteq> Some []"
    by simp
  have h2: "hfield (example_handler\<lparr>hfield := Some [''spec'', ''replicas'']\<rparr>) \<noteq> Some []"
    by simp
  show ?thesis
    using h
      matches_field_iff [OF h, where changed = "{[''spec'', ''replicas'']}" and ign = False
        and p = "[]"
        and c = "example_cause\<lparr>diff := Some [(''change'', [''spec'', ''replicas''], ''1'', ''3'')]\<rparr>"]
      matches_field_iff [OF h, where changed = "{[''status'', ''phase'']}" and ign = False
        and p = "[]" and c = example_cause]
      matches_field_iff [OF h2, where changed = "{}" and ign = False
        and p = "[''spec'']" and c = example_cause]
    by (simp add: example_handler_def example_cause_def)
qed

lemma matches_metadata_iff:
  "matches_metadata pattern content \<longleftrightarrow>
     (\<forall>(k, v) \<in> set pattern. \<exists>cv. content k = Some cv \<and> (v = None \<or> v = Some cv))"
  by (induction pattern content rule: matches_metadata.induct) (auto split: option.splits)

lemma matches_metadata_empty: "matches_metadata pattern Map.empty \<longleftrightarrow> pattern = []"
  by (cases pattern) auto

lemma matches_metadata_body_labels:
  "matches_metadata pattern (body_labels b) \<longleftrightarrow>
     pattern = [] \<or>
     (\<exists>m l. metadata b = Some m \<and> meta_labels m = Some l \<and>
        (\<forall>(k, v) \<in> set pattern. \<exists>cv. l k = Some cv \<and> (v = None \<or> v = Some cv)))"
proof (cases "metadata b")
  case None
  then show ?thesis by (simp add: body_labels_def matches_metadata_empty)
next
  case m: (Some m)
  show ?thesis
  proof (cases "meta_labels m")
    case None
    with m show ?thesis by (simp add: body_labels_def matches_metadata_empty)
  next
    case (Some l)
    with m show ?thesis by (auto simp add: body_labels_def matches_metadata_iff)
  qed
qed

lemma matches_metadata_body_annotations:
  "matches_metadata pattern (body_annotations b) \<longleftrightarrow>
     pattern = [] \<or>
     (\<exists>m a. metadata b = Some m \<and> meta_annotations m = Some a \<and>
        (\<forall>(k, v) \<in> set pattern. \<exists>cv. a k = Some cv \<and> (v = None \<or> v = Some cv)))"
proof (cases "metadata b")
  case None
  then show ?thesis by (simp add: body_annotations_def matches_metadata_empty)
next
  case m: (Some m)
  show ?thesis
  proof (cases "meta_annotations m")
    case None
    with m show ?thesis by (simp add: body_annotations_def matches_metadata_empty)
  next
    case (Some a)
    with m show ?thesis by (auto simp add: body_annotations_def matches_metadata_iff)
  qed
qed

text \<open>
  C6. The label rule passes iff the selector of the handler is empty (absent, or with no
  key), or the body has \<open>metadata.labels\<close> and every key of the selector is one of these
  labels and, where the selector gives a value, the label has exactly that value; a
  selector value \<open>None\<close> asks for the key only. The annotation rule is the same on
  \<open>metadata.annotations\<close> of the body.
\<close>

theorem matches_labels_annotations_iff:
  "(matches_labels h b \<longleftrightarrow>
      labels h = None \<or> labels h = Some [] \<or>
      (\<exists>m l. metadata b = Some m \<and> meta_labels m = Some l \<and>
         (\<forall>(k, v) \<in> set (the (labels h)). \<exists>cv. l k = Some cv \<and> (v = None \<or> v = Some cv))))
   \<and> (matches_annotations h b \<longleftrightarrow>
      annotations h = None \<or> annotations h = Some [] \<or>
      (\<exists>m a. metadata b = Some m \<and> meta_annotations m = Some a \<and>
         (\<forall>(k, v) \<in> set (the (annotations h)). \<exists>cv. a k = Some cv \<and> (v = None \<or> v = Some cv))))"
  by (auto simp add: matches_labels_def matches_annotations_def matches_metadata_body_labels
      matches_metadata_body_annotations split: option.splits)

theorem matches_labels_annotations_iff_witness:
  "matches_labels (example_handler\<lparr>labels := Some [(''env'', Some ''prod'')]\<rparr>)
       (example_body [''env'' \<mapsto> ''prod''] [''team'' \<mapsto> ''a''])
   \<and> \<not> matches_labels (example_handler\<lparr>labels := Some [(''env'', Some ''prod'')]\<rparr>)
       (example_body [''env'' \<mapsto> ''staging''] [''env'' \<mapsto> ''prod''])
   \<and> \<not> matches_labels (example_handler\<lparr>labels := Some [(''env'', Some ''prod'')]\<rparr>)
       \<lparr>metadata = None\<rparr>
   \<and> matches_labels (example_handler\<lparr>labels := Some [(''env'', None)]\<rparr>)
       (example_body [''env'' \<mapsto> ''staging''] Map.empty)
   \<and> matches_annotations (example_handler\<lparr>annotations := Some [(''team'', Some ''a'')]\<rparr>)
       (example_body [''env'' \<mapsto> ''prod''] [''team'' \<mapsto> ''a''])
   \<and> \<not> matches_annotations (example_handler\<lparr>annotations := Some [(''env'', Some ''prod'')]\<rparr>)
       (example_body [''env'' \<mapsto> ''prod''] [''team'' \<mapsto> ''a''])
   \<and> matches_annotations (example_handler\<lparr>annotations := Some [(''team'', None)]\<rparr>)
       (example_body Map.empty [''team'' \<mapsto> ''b''])"
  using
    matches_labels_annotations_iff [of "example_handler\<lparr>labels := Some [(''env'', Some ''prod'')]\<rparr>"
      "example_body [''env'' \<mapsto> ''prod''] [''team'' \<mapsto> ''a'']"]
    matches_labels_annotations_iff [of "example_handler\<lparr>labels := Some [(''env'', Some ''prod'')]\<rparr>"
      "example_body [''env'' \<mapsto> ''staging''] [''env'' \<mapsto> ''prod'']"]
    matches_labels_annotations_iff [of "example_handler\<lparr>labels := Some [(''env'', Some ''prod'')]\<rparr>"
      "\<lparr>metadata = None\<rparr>"]
    matches_labels_annotations_iff [of "example_handler\<lparr>labels := Some [(''env'', None)]\<rparr>"
      "example_body [''env'' \<mapsto> ''staging''] Map.empty"]
    matches_labels_annotations_iff [of "example_handler\<lparr>annotations := Some [(''team'', Some ''a'')]\<rparr>"
      "example_body [''env'' \<mapsto> ''prod''] [''team'' \<mapsto> ''a'']"]
    matches_labels_annotations_iff [of "example_handler\<lparr>annotations := Some [(''env'', Some ''prod'')]\<rparr>"
      "example_body [''env'' \<mapsto> ''prod''] [''team'' \<mapsto> ''a'']"]
    matches_labels_annotations_iff [of "example_handler\<lparr>annotations := Some [(''team'', None)]\<rparr>"
      "example_body Map.empty [''team'' \<mapsto> ''b'']"]
  by (simp add: example_handler_def example_body_def)

lemma match_Inl_iff: "match h c cf ig = Inl e \<longleftrightarrow> matches_filter_callback h c = Inl e"
  by (simp add: match_def Let_def split: sum.splits)

lemma watching_iter_raises:
  assumes "\<forall>x \<in> set pre. \<forall>e'. matches_filter_callback x c \<noteq> Inl e'"
    and "matches_filter_callback h c = Inl e"
  shows "ResourceWatchingRegistry_iter_handlers (pre @ h # post) c =
           (filter (\<lambda>x. match x c {} True = Inr True) pre, Some (generator_raise e))"
  using assms
proof (induction pre)
  case Nil
  then show ?case by (simp add: match_Inl_iff [THEN iffD2])
next
  case (Cons x pre)
  then obtain m where "match x c {} True = Inr m"
    by (cases "match x c {} True") (auto simp add: match_Inl_iff)
  then show ?case using Cons by (simp add: yield_def)
qed

lemma changing_loop_raises:
  assumes "\<forall>x \<in> set pre. \<forall>e'. matches_filter_callback x c \<noteq> Inl e'"
    and "matches_filter_callback h c = Inl e"
    and "reason h = None \<or> reason h = Some (cause_reason c)"
    and "\<not> (truthy (initial h) \<and> \<not> cause_initial c)"
    and "\<not> (truthy (initial h) \<and> cause_deleted c \<and> \<not> truthy (deleted h))"
  shows "snd (changing_loop cf (pre @ h # post) c) = Some (generator_raise e)"
  using assms
proof (induction pre)
  case Nil
  then show ?case by (auto simp add: match_Inl_iff [THEN iffD2])
next
  case (Cons x pre)
  then obtain m where "match x c cf False = Inr m"
    by (cases "match x c cf False") (auto simp add: match_Inl_iff)
  then show ?case using Cons by (simp add: yield_def)
qed

lemma get_handlers_raises:
  "snd g = Some (generator_raise e) \<Longrightarrow> to_list (deduplicated_gen g) = Inl (generator_raise e)"
  by (simp add: to_list_def deduplicated_gen_def delegated_generator_raise)

text \<open>
  C7, as stated, fails: the selections are generators, and a \<open>StopIteration\<close> raised by
  the callback inside a generator reaches the caller of \<open>get_handlers\<close> as a
  \<open>RuntimeError\<close>, while it leaves \<open>match\<close> as it is.
\<close>

theorem when_predicate_StopIteration_counterexample:
  "match (example_handler\<lparr>hwhen := Some (\<lambda>c. Inl StopIteration)\<rparr>) example_cause {} False =
     Inl StopIteration
   \<and> ResourceChangingRegistry_get_handlers
       [example_handler\<lparr>hwhen := Some (\<lambda>c. Inl StopIteration)\<rparr>] example_cause =
     Inl (RuntimeError ''generator raised StopIteration'')
   \<and> ResourceWatchingRegistry_get_handlers
       [example_handler\<lparr>hwhen := Some (\<lambda>c. Inl StopIteration)\<rparr>] example_cause =
     Inl (RuntimeError ''generator raised StopIteration'')"
  by (simp add: example_handler_def example_cause_def match_def matches_filter_callback_def
      ResourceChangingRegistry_get_handlers_def ResourceChangingRegistry_iter_handlers_def
      ResourceWatchingRegistry_get_handlers_def truthy_def to_list_def deduplicated_gen_def
      iterated_def generator_raise_def)

text \<open>
  C7, amended. The predicate rule passes when the handler has no \<open>when\<close> callback;
  otherwise its result is what the callback returns for the cause. What the callback
  raises leaves \<open>match\<close> as it is, whatever the other three rules say. In the selection of
  both resource registries, when the callbacks of the handlers before \<open>h\<close> return and the
  callback of \<open>h\<close> is called and raises \<open>e\<close>, \<open>get_handlers\<close> returns no handler and raises
  \<open>e\<close> itself, unless \<open>e\<close> is \<open>StopIteration\<close>, for which it raises the \<open>RuntimeError\<close> of
  the generator. The selections of the \<open>OperatorRegistry\<close> for a resource that has a
  registry return or raise what the selections of that registry do, and leave the
  \<open>OperatorRegistry\<close> as it was.
\<close>

theorem when_predicate_rule:
  "(hwhen h = None \<longrightarrow> matches_filter_callback h c = Inr True)
   \<and> (\<forall>w. hwhen h = Some w \<longrightarrow> matches_filter_callback h c = w c)
   \<and> (\<forall>b. matches_filter_callback h c = Inr b \<longrightarrow>
        match h c cf ig =
          Inr (matches_field h cf ig \<and> matches_labels h (body c) \<and> matches_annotations h (body c) \<and> b))
   \<and> (\<forall>e. matches_filter_callback h c = Inl e \<longrightarrow> match h c cf ig = Inl e)
   \<and> (\<forall>e. (\<forall>x \<in> set pre. \<forall>e'. matches_filter_callback x c \<noteq> Inl e')
          \<and> matches_filter_callback h c = Inl e \<longrightarrow>
        ResourceWatchingRegistry_get_handlers (pre @ h # post) c =
          Inl (if e = StopIteration then RuntimeError ''generator raised StopIteration'' else e))
   \<and> (\<forall>e. (\<forall>x \<in> set pre'. \<forall>e'. matches_filter_callback x c' \<noteq> Inl e')
          \<and> matches_filter_callback h' c' = Inl e
          \<and> (reason h' = None \<or> reason h' = Some (cause_reason c'))
          \<and> \<not> (truthy (initial h') \<and> \<not> cause_initial c')
          \<and> \<not> (truthy (initial h') \<and> cause_deleted c' \<and> \<not> truthy (deleted h')) \<longrightarrow>
        ResourceChangingRegistry_get_handlers (pre' @ h' # post') c' =
          Inl (if e = StopIteration then RuntimeError ''generator raised StopIteration'' else e))
   \<and> (\<forall>whs. resource_watching_handlers reg (resource wc) = Some whs \<longrightarrow>
        OperatorRegistry_iter_resource_watching_handlers reg wc =
          (ResourceWatchingRegistry_iter_handlers whs wc, reg)
        \<and> OperatorRegistry_get_resource_watching_handlers reg wc =
          (ResourceWatchingRegistry_get_handlers whs wc, reg))
   \<and> (\<forall>chs. resource_changing_handlers reg (resource cc) = Some chs \<longrightarrow>
        OperatorRegistry_iter_resource_changing_handlers reg cc =
          (ResourceChangingRegistry_iter_handlers chs cc, reg)
        \<and> OperatorRegistry_get_resource_changing_handlers reg cc =
          (ResourceChangingRegistry_get_handlers chs cc, reg))"
proof (intro conjI allI impI)
  show "hwhen h = None \<Longrightarrow> matches_filter_callback h c = Inr True"
    by (simp add: matches_filter_callback_def)
  show "\<And>w. hwhen h = Some w \<Longrightarrow> matches_filter_callback h c = w c"
    by (simp add: matches_filter_callback_def)
  show "\<And>b. matches_filter_callback h c = Inr b \<Longrightarrow> match h c cf ig =
          Inr (matches_field h cf ig \<and> matches_labels h (body c) \<and> matches_annotations h (body c) \<and> b)"
    by (simp add: match_def)
  show "\<And>e. matches_filter_callback h c = Inl e \<Longrightarrow> match h c cf ig = Inl e"
    by (simp add: match_Inl_iff)
  show "\<And>e. (\<forall>x \<in> set pre. \<forall>e'. matches_filter_callback x c \<noteq> Inl e')
          \<and> matches_filter_callback h c = Inl e \<Longrightarrow>
        ResourceWatchingRegistry_get_handlers (pre @ h # post) c =
          Inl (if e = StopIteration then RuntimeError ''generator raised StopIteration'' else e)"
    using watching_iter_raises [of pre c h _ post]
      get_handlers_raises [of "ResourceWatchingRegistry_iter_handlers (pre @ h # post) c"]
    by (simp add: ResourceWatchingRegistry_get_handlers_def generator_raise_def)
  show "\<And>e. (\<forall>x \<in> set pre'. \<forall>e'. matches_filter_callback x c' \<noteq> Inl e')
          \<and> matches_filter_callback h' c' = Inl e
          \<and> (reason h' = None \<or> reason h' = Some (cause_reason c'))
          \<and> \<not> (truthy (initial h') \<and> \<not> cause_initial c')
          \<and> \<not> (truthy (initial h') \<and> cause_deleted c' \<and> \<not> truthy (deleted h')) \<Longrightarrow>
        ResourceChangingRegistry_get_handlers (pre' @ h' # post') c' =
          Inl (if e = StopIteration then RuntimeError ''generator raised StopIteration'' else e)"
    using changing_loop_raises [of pre' c' h' _ "changed_fields_of c'" post']
      get_handlers_raises [of "changing_loop (changed_fields_of c') (pre' @ h' # post') c'"]
    by (simp add: ResourceChangingRegistry_get_handlers_def generator_raise_def
        ResourceChangingRegistry_iter_handlers_def)
next
  fix whs
  assume w: "resource_watching_handlers reg (resource wc) = Some whs"
  then show i: "OperatorRegistry_iter_resource_watching_handlers reg wc =
          (ResourceWatchingRegistry_iter_handlers whs wc, reg)"
    by (simp add: OperatorRegistry_iter_resource_watching_handlers_def dd_contains_def
        dd_getitem_def yield_from_watching)
  show "OperatorRegistry_get_resource_watching_handlers reg wc =
          (ResourceWatchingRegistry_get_handlers whs wc, reg)"
    by (simp add: OperatorRegistry_get_resource_watching_handlers_def i
        ResourceWatchingRegistry_get_handlers_def)
next
  fix chs
  assume ch: "resource_changing_handlers reg (resource cc) = Some chs"
  then show i: "OperatorRegistry_iter_resource_changing_handlers reg cc =
          (ResourceChangingRegistry_iter_handlers chs cc, reg)"
    by (simp add: OperatorRegistry_iter_resource_changing_handlers_def dd_contains_def
        dd_getitem_def yield_from_changing)
  show "OperatorRegistry_get_resource_changing_handlers reg cc =
          (ResourceChangingRegistry_get_handlers chs cc, reg)"
    by (simp add: OperatorRegistry_get_resource_changing_handlers_def i
        ResourceChangingRegistry_get_handlers_def)
qed

theorem when_predicate_rule_witness:
  "matches_filter_callback example_handler example_cause = Inr True
   \<and> match (example_handler\<lparr>hfield := Some [''spec''],
                hwhen := Some (\<lambda>c. Inl (UserError ''boom''))\<rparr>) example_cause {} False =
       Inl (UserError ''boom'')
   \<and> ResourceWatchingRegistry_get_handlers
       [example_handler, example_handler\<lparr>hwhen := Some (\<lambda>c. Inl (UserError ''boom''))\<rparr>,
        example_handler] example_cause = Inl (UserError ''boom'')
   \<and> ResourceChangingRegistry_get_handlers
       [example_handler, example_handler\<lparr>hwhen := Some (\<lambda>c. Inl StopIteration)\<rparr>,
        example_handler] example_cause = Inl (RuntimeError ''generator raised StopIteration'')
   \<and> fst (OperatorRegistry_get_resource_changing_handlers
       (OperatorRegistry_init\<lparr>resource_changing_handlers :=
          [(''apps'', ''v1'', ''deployments'') \<mapsto>
             [example_handler, example_handler\<lparr>hwhen := Some (\<lambda>c. Inl (UserError ''boom''))\<rparr>]]\<rparr>)
       example_cause) = Inl (UserError ''boom'')"
  using
    when_predicate_rule [where h = example_handler and c = example_cause and cf = "{}" and ig = False
      and pre = "[]" and post = "[]" and pre' = "[]" and post' = "[]"
      and h' = example_handler and c' = example_cause
      and reg = OperatorRegistry_init and cc = example_cause
      and wc = "\<lparr>resource = (''apps'', ''v1'', ''deployments''), body = \<lparr>metadata = None\<rparr>\<rparr>"]
    when_predicate_rule [where
      h = "example_handler\<lparr>hfield := Some [''spec''], hwhen := Some (\<lambda>c. Inl (UserError ''boom''))\<rparr>"
      and c = example_cause and cf = "{}" and ig = False
      and pre = "[]" and post = "[]" and pre' = "[]" and post' = "[]"
      and h' = example_handler and c' = example_cause
      and reg = OperatorRegistry_init and cc = example_cause
      and wc = "\<lparr>resource = (''apps'', ''v1'', ''deployments''), body = \<lparr>metadata = None\<rparr>\<rparr>"]
    when_predicate_rule [where
      h = "example_handler\<lparr>hwhen := Some (\<lambda>c. Inl (UserError ''boom''))\<rparr>"
      and c = example_cause and cf = "{}" and ig = False
      and pre = "[example_handler]" and post = "[example_handler]"
      and pre' = "[example_handler]" and post' = "[example_handler]"
      and h' = "example_handler\<lparr>hwhen := Some (\<lambda>c. Inl StopIteration)\<rparr>"
      and c' = example_cause
      and reg = "OperatorRegistry_init\<lparr>resource_changing_handlers :=
          [(''apps'', ''v1'', ''deployments'') \<mapsto>
             [example_handler, example_handler\<lparr>hwhen := Some (\<lambda>c. Inl (UserError ''boom''))\<rparr>]]\<rparr>"
      and cc = example_cause
      and wc = "\<lparr>resource = (''apps'', ''v1'', ''deployments''), body = \<lparr>metadata = None\<rparr>\<rparr>"]
    when_predicate_rule [where
      h = "example_handler\<lparr>hwhen := Some (\<lambda>c. Inl (UserError ''boom''))\<rparr>"
      and c = example_cause and cf = "{}" and ig = False
      and pre = "[]" and post = "[]"
      and pre' = "[example_handler]" and post' = "[]"
      and h' = "example_handler\<lparr>hwhen := Some (\<lambda>c. Inl (UserError ''boom''))\<rparr>"
      and c' = example_cause
      and reg = OperatorRegistry_init and cc = example_cause
      and wc = "\<lparr>resource = (''apps'', ''v1'', ''deployments''), body = \<lparr>metadata = None\<rparr>\<rparr>"]
  by (simp add: example_handler_def example_cause_def matches_filter_callback_def truthy_def
      OperatorRegistry_init_def)

section \<open>Properties of the resource registries\<close>






text \<open>
  What \<open>requires_finalizer\<close> computes when no callback raises: \<open>match\<close> is called with no
  changed path and \<open>ignore_fields\<close> false, so a handler with a field never counts.
\<close>

lemma requires_finalizer_char:
  assumes "\<forall>h \<in> set hs. requires_finalizer h \<longrightarrow> (\<forall>e. matches_filter_callback h c \<noteq> Inl e)"
  shows "ResourceRegistry_requires_finalizer hs c =
     Inr (\<exists>h \<in> set hs. requires_finalizer h
            \<and> (hfield h = None \<or> hfield h = Some [])
            \<and> matches_labels h (body c) \<and> matches_annotations h (body c)
            \<and> matches_filter_callback h c = Inr True)"
  using assms
proof (induction hs)
  case Nil
  show ?case by simp
next
  case (Cons h hs)
  show ?case
  proof (cases "requires_finalizer h")
    case False
    then show ?thesis using Cons by simp
  next
    case True
    then obtain b where b: "matches_filter_callback h c = Inr b"
      using Cons.prems by (cases "matches_filter_callback h c") auto
    have m: "match h c {} False =
        Inr ((hfield h = None \<or> hfield h = Some []) \<and> matches_labels h (body c)
             \<and> matches_annotations h (body c) \<and> b)"
      using b by (auto simp add: match_def matches_field_def split: option.splits)
    show ?thesis using True Cons b m by auto
  qed
qed

text \<open>
  C2. \<open>requires_finalizer\<close> applies the field rule, against no changed path: for a
  registry whose only handler has \<open>requires_finalizer\<close> true, the field \<open>spec\<close> and no
  other filter, it returns false for every cause, in the registry and through the
  \<open>OperatorRegistry\<close>, although the handler matches the cause when the field rule is
  ignored; without the field it returns true.
\<close>

theorem requires_finalizer_with_field:
  "ResourceRegistry_requires_finalizer
     [example_handler\<lparr>reason := Some ''delete'', hfield := Some [''spec''],
                      requires_finalizer := True\<rparr>] example_cause = Inr False
   \<and> fst (OperatorRegistry_requires_finalizer
       (OperatorRegistry_init\<lparr>resource_changing_handlers :=
          [(''apps'', ''v1'', ''deployments'') \<mapsto>
             [example_handler\<lparr>reason := Some ''delete'', hfield := Some [''spec''],
                              requires_finalizer := True\<rparr>]]\<rparr>)
       (''apps'', ''v1'', ''deployments'') example_cause) = Inr False
   \<and> match (example_handler\<lparr>reason := Some ''delete'', hfield := Some [''spec''],
                             requires_finalizer := True\<rparr>) example_cause {} True = Inr True
   \<and> ResourceRegistry_requires_finalizer
     [example_handler\<lparr>reason := Some ''delete'', requires_finalizer := True\<rparr>] example_cause = Inr True"
  by (simp add: example_handler_def example_cause_def OperatorRegistry_init_def
      OperatorRegistry_requires_finalizer_def dd_contains_def dd_getitem_def
      match_def matches_field_def matches_labels_def matches_annotations_def
      matches_filter_callback_def)

section \<open>Properties of the activity registry\<close>

text \<open>
  Where every fallback handler has an activity, \<open>iter_handlers\<close> yields the regular
  candidates when there is one, and the fallback candidates otherwise.
\<close>

lemma ActivityRegistry_iter_handlers_filtered_fallbacks:
  assumes "\<forall>h \<in> set hs. fallback h \<longrightarrow> activity h \<noteq> None"
  shows "ActivityRegistry_iter_handlers hs a =
     (if filter (\<lambda>h. (activity h = None \<or> activity h = Some a) \<and> \<not> fallback h) hs \<noteq> []
      then filter (\<lambda>h. (activity h = None \<or> activity h = Some a) \<and> \<not> fallback h) hs
      else filter (\<lambda>h. (activity h = None \<or> activity h = Some a) \<and> fallback h) hs)"
proof -
  have r: "filter (\<lambda>h. activity h = None \<or> (activity h = Some a \<and> \<not> fallback h)) hs =
           filter (\<lambda>h. (activity h = None \<or> activity h = Some a) \<and> \<not> fallback h) hs"
    using assms by (intro filter_cong) auto
  have f: "filter (\<lambda>h. (activity h = None \<or> activity h = Some a) \<and> \<not> fallback h) hs = [] \<Longrightarrow>
           filter (\<lambda>h. activity h = None \<or> (activity h = Some a \<and> fallback h)) hs =
           filter (\<lambda>h. (activity h = None \<or> activity h = Some a) \<and> fallback h) hs"
    using assms by (intro filter_cong) (auto simp: filter_empty_conv)
  show ?thesis
    unfolding ActivityRegistry_iter_handlers_def Let_def r using f by simp
qed

text \<open>
  C1. A fallback handler without an activity passes the test of the first loop of
  \<open>iter_handlers\<close>, which reads \<open>activity is None or (activity == A and not _fallback)\<close>:
  with a regular handler of the activity after it, both are yielded, the fallback first,
  by \<open>iter_handlers\<close> and by \<open>get_handlers\<close>. With the activity set on the fallback handler,
  the regular handler alone is yielded.
\<close>

theorem ActivityRegistry_fallback_without_activity:
  "ActivityRegistry_iter_handlers
     [\<lparr>hid = ''login_fallback'', fn = \<lparr>py_id = 1, callable = Function ''login_fallback''\<rparr>,
       activity = None, fallback = True\<rparr>,
      \<lparr>hid = ''login'', fn = \<lparr>py_id = 2, callable = Function ''login''\<rparr>,
       activity = Some ''authentication'', fallback = False\<rparr>] ''authentication'' =
     [\<lparr>hid = ''login_fallback'', fn = \<lparr>py_id = 1, callable = Function ''login_fallback''\<rparr>,
       activity = None, fallback = True\<rparr>,
      \<lparr>hid = ''login'', fn = \<lparr>py_id = 2, callable = Function ''login''\<rparr>,
       activity = Some ''authentication'', fallback = False\<rparr>]
   \<and> ActivityRegistry_get_handlers
     [\<lparr>hid = ''login_fallback'', fn = \<lparr>py_id = 1, callable = Function ''login_fallback''\<rparr>,
       activity = None, fallback = True\<rparr>,
      \<lparr>hid = ''login'', fn = \<lparr>py_id = 2, callable = Function ''login''\<rparr>,
       activity = Some ''authentication'', fallback = False\<rparr>] ''authentication'' =
     [\<lparr>hid = ''login_fallback'', fn = \<lparr>py_id = 1, callable = Function ''login_fallback''\<rparr>,
       activity = None, fallback = True\<rparr>,
      \<lparr>hid = ''login'', fn = \<lparr>py_id = 2, callable = Function ''login''\<rparr>,
       activity = Some ''authentication'', fallback = False\<rparr>]
   \<and> ActivityRegistry_iter_handlers
     [\<lparr>hid = ''login_fallback'', fn = \<lparr>py_id = 1, callable = Function ''login_fallback''\<rparr>,
       activity = Some ''authentication'', fallback = True\<rparr>,
      \<lparr>hid = ''login'', fn = \<lparr>py_id = 2, callable = Function ''login''\<rparr>,
       activity = Some ''authentication'', fallback = False\<rparr>] ''authentication'' =
     [\<lparr>hid = ''login'', fn = \<lparr>py_id = 2, callable = Function ''login''\<rparr>,
       activity = Some ''authentication'', fallback = False\<rparr>]"
  by (simp add: ActivityRegistry_iter_handlers_def ActivityRegistry_get_handlers_def deduplicated_def)

section \<open>Properties of the operator registry\<close>

lemma dd_getitem_present: "d k = Some v \<Longrightarrow> dd_getitem d k = (v, d)"
  by (simp add: dd_getitem_def)

lemma dd_getitem_missing: "d k = None \<Longrightarrow> dd_getitem d k = ([], d(k \<mapsto> []))"
  by (simp add: dd_getitem_def)

text \<open>
  C8. For a resource with no handler of the family asked for (no key in the dictionary
  of that family, or an empty registry under it), \<open>has_resource_*_handlers\<close> return false,
  the \<open>iter_*\<close> and \<open>get_*\<close> selections, \<open>iter_extra_fields\<close> and \<open>get_extra_fields\<close> return
  nothing, \<open>requires_finalizer\<close> returns false, none raises, and the registry is left as it
  was: no key is stored, since each method asks \<open>resource in ...\<close> before it reads the
  \<open>defaultdict\<close>. The same holds of the activity handlers of a registry that has none.
\<close>

theorem queries_of_unregistered_kind:
  "(resource_watching_handlers reg res = None \<or> resource_watching_handlers reg res = Some [] \<longrightarrow>
      OperatorRegistry_has_resource_watching_handlers reg res = (False, reg)
      \<and> (resource wc = res \<longrightarrow>
           OperatorRegistry_iter_resource_watching_handlers reg wc = (([], None), reg)
           \<and> OperatorRegistry_get_resource_watching_handlers reg wc = (Inr [], reg)))
   \<and> (resource_changing_handlers reg res = None \<or> resource_changing_handlers reg res = Some [] \<longrightarrow>
      OperatorRegistry_has_resource_changing_handlers reg res = (False, reg)
      \<and> (resource cc = res \<longrightarrow>
           OperatorRegistry_iter_resource_changing_handlers reg cc = (([], None), reg)
           \<and> OperatorRegistry_get_resource_changing_handlers reg cc = (Inr [], reg))
      \<and> OperatorRegistry_iter_extra_fields reg res = ([], reg)
      \<and> OperatorRegistry_get_extra_fields reg res = ({}, reg)
      \<and> OperatorRegistry_requires_finalizer reg res cause = (Inr False, reg))
   \<and> (activity_handlers reg = [] \<longrightarrow>
      OperatorRegistry_has_activity_handlers reg = (False, reg)
      \<and> OperatorRegistry_iter_activity_handlers reg act = ([], reg)
      \<and> OperatorRegistry_get_activity_handlers reg act = ([], reg))"
proof (intro conjI impI)
  assume w: "resource_watching_handlers reg res = None \<or> resource_watching_handlers reg res = Some []"
  show "OperatorRegistry_has_resource_watching_handlers reg res = (False, reg)"
    using w by (auto simp add: OperatorRegistry_has_resource_watching_handlers_def dd_contains_def
        dd_getitem_present)
  assume "resource wc = res"
  then have 3: "OperatorRegistry_iter_resource_watching_handlers reg wc = (([], None), reg)"
    using w by (auto simp add: OperatorRegistry_iter_resource_watching_handlers_def dd_contains_def
        dd_getitem_present yield_from_def iterated_def)
  show "OperatorRegistry_iter_resource_watching_handlers reg wc = (([], None), reg)"
    by (rule 3)
  show "OperatorRegistry_get_resource_watching_handlers reg wc = (Inr [], reg)"
    using 3 by (simp add: OperatorRegistry_get_resource_watching_handlers_def
        to_list_def deduplicated_gen_def deduplicated_def iterated_def)
next
  assume ch: "resource_changing_handlers reg res = None \<or> resource_changing_handlers reg res = Some []"
  show "OperatorRegistry_has_resource_changing_handlers reg res = (False, reg)"
    using ch by (auto simp add: OperatorRegistry_has_resource_changing_handlers_def dd_contains_def
        dd_getitem_present)
  have 5: "OperatorRegistry_iter_extra_fields reg res = ([], reg)"
    using ch by (auto simp add: OperatorRegistry_iter_extra_fields_def dd_contains_def
        dd_getitem_present ResourceRegistry_iter_extra_fields_def)
  show "OperatorRegistry_iter_extra_fields reg res = ([], reg)"
    by (rule 5)
  show "OperatorRegistry_get_extra_fields reg res = ({}, reg)"
    using 5 by (simp add: OperatorRegistry_get_extra_fields_def)
  show "OperatorRegistry_requires_finalizer reg res cause = (Inr False, reg)"
    using ch by (auto simp add: OperatorRegistry_requires_finalizer_def dd_contains_def
        dd_getitem_present)
  assume "resource cc = res"
  then have 4: "OperatorRegistry_iter_resource_changing_handlers reg cc = (([], None), reg)"
    using ch by (auto simp add: OperatorRegistry_iter_resource_changing_handlers_def dd_contains_def
        dd_getitem_present ResourceChangingRegistry_iter_handlers_def yield_from_def iterated_def)
  show "OperatorRegistry_iter_resource_changing_handlers reg cc = (([], None), reg)"
    by (rule 4)
  show "OperatorRegistry_get_resource_changing_handlers reg cc = (Inr [], reg)"
    using 4 by (simp add: OperatorRegistry_get_resource_changing_handlers_def
        to_list_def deduplicated_gen_def deduplicated_def iterated_def)
next
  assume a: "activity_handlers reg = []"
  show "OperatorRegistry_has_activity_handlers reg = (False, reg)"
    using a by (simp add: OperatorRegistry_has_activity_handlers_def)
  show "OperatorRegistry_iter_activity_handlers reg act = ([], reg)"
    using a by (simp add: OperatorRegistry_iter_activity_handlers_def ActivityRegistry_iter_handlers_def)
  show "OperatorRegistry_get_activity_handlers reg act = ([], reg)"
    using a by (simp add: OperatorRegistry_get_activity_handlers_def
        OperatorRegistry_iter_activity_handlers_def ActivityRegistry_iter_handlers_def deduplicated_def)
qed

theorem queries_of_unregistered_kind_witness:
  "OperatorRegistry_has_resource_watching_handlers OperatorRegistry_init (''apps'', ''v1'', ''deployments'')
     = (False, OperatorRegistry_init)
   \<and> OperatorRegistry_get_resource_changing_handlers OperatorRegistry_init example_cause
     = (Inr [], OperatorRegistry_init)
   \<and> OperatorRegistry_get_extra_fields OperatorRegistry_init (''apps'', ''v1'', ''deployments'')
     = ({}, OperatorRegistry_init)
   \<and> OperatorRegistry_requires_finalizer OperatorRegistry_init (''apps'', ''v1'', ''deployments'')
       example_cause = (Inr False, OperatorRegistry_init)
   \<and> OperatorRegistry_resources (snd (OperatorRegistry_get_resource_changing_handlers
       OperatorRegistry_init example_cause)) = {}"
  using queries_of_unregistered_kind [where reg = OperatorRegistry_init
      and res = "(''apps'', ''v1'', ''deployments'')" and cc = example_cause
      and wc = "\<lparr>resource = (''apps'', ''v1'', ''deployments''), body = \<lparr>metadata = None\<rparr>\<rparr>"
      and cause = example_cause and act = "''startup''"]
  by (simp add: OperatorRegistry_init_def example_cause_def OperatorRegistry_resources_def)

end
